theory Spec2Isabelle
  imports Complex_Main
begin

section \<open>The two-node model of jsthermalcomfort (src/models/two\_nodes.js)\<close>

text \<open>
  The embedding follows \<^verbatim>\<open>two_nodes.js\<close> function by function. A JavaScript number is
  modelled as a real: \<^verbatim>\<open>Math.exp\<close>, \<^verbatim>\<open>Math.pow\<close>, \<^verbatim>\<open>Math.abs\<close> and \<^verbatim>\<open>Math.max\<close> are
  \<open>exp\<close>, \<open>powr\<close>, \<open>abs\<close> and \<open>max\<close>, and \<^verbatim>\<open>x ** 3.0\<close> is \<open>x ^ 3\<close>. Rounding
  error, \<^verbatim>\<open>NaN\<close> and the infinities of IEEE arithmetic are not represented: a division
  by zero is \<open>0\<close> here and an infinity or \<^verbatim>\<open>NaN\<close> in the program, so inputs that make a
  divisor zero lie outside the embedding. A thrown exception is a value \<open>Inl e\<close>, and a
  loop with no bound on its iterations is a partial function whose value \<open>None\<close> stands
  for a call that never returns.
\<close>

subsection \<open>Errors and keyword arguments\<close>

text \<open>
  \<open>TypeError\<close> is what the engine throws on an assignment to a \<^verbatim>\<open>const\<close> binding;
  \<open>Error msg\<close> is \<^verbatim>\<open>throw new Error(msg)\<close>.
\<close>

datatype error = TypeError | Error string

text \<open>The option \<^verbatim>\<open>w_max\<close> is a number or \<^verbatim>\<open>false\<close>.\<close>

datatype w_max_val = WFalse | WNumber real

text \<open>
  A \<^verbatim>\<open>kwargs\<close> object: every key may be absent, and reading an absent key gives
  \<^verbatim>\<open>undefined\<close>, here \<open>None\<close>.
\<close>

record kwargs =
  kw_calculate_ce :: "bool option"
  kw_round :: "bool option"
  kw_max_sweating :: "real option"
  kw_w_max :: "w_max_val option"
  kw_max_skin_blood_flow :: "real option"

definition defaults_kwargs :: kwargs where
  "defaults_kwargs =
     \<lparr>kw_calculate_ce = Some False, kw_round = Some True, kw_max_sweating = Some 500,
      kw_w_max = Some WFalse, kw_max_skin_blood_flow = None\<rparr>"

text \<open>\<^verbatim>\<open>Object.assign(target, source)\<close>: the keys of the source overwrite the target's.\<close>

definition assign_key :: "'a option \<Rightarrow> 'a option \<Rightarrow> 'a option" where
  "assign_key target source = (case source of None \<Rightarrow> target | Some x \<Rightarrow> Some x)"

definition object_assign :: "kwargs \<Rightarrow> kwargs \<Rightarrow> kwargs" where
  "object_assign target source =
     \<lparr>kw_calculate_ce = assign_key (kw_calculate_ce target) (kw_calculate_ce source),
      kw_round = assign_key (kw_round target) (kw_round source),
      kw_max_sweating = assign_key (kw_max_sweating target) (kw_max_sweating source),
      kw_w_max = assign_key (kw_w_max target) (kw_w_max source),
      kw_max_skin_blood_flow =
        assign_key (kw_max_skin_blood_flow target) (kw_max_skin_blood_flow source)\<rparr>"

text \<open>
  Truthiness of the values the options hold: \<^verbatim>\<open>undefined\<close>, \<^verbatim>\<open>false\<close> and \<^verbatim>\<open>0\<close> are
  falsy. 
\<close>

fun truthy_bool :: "bool option \<Rightarrow> bool" where
  "truthy_bool None = False"
| "truthy_bool (Some b) = b"

fun truthy_w_max :: "w_max_val option \<Rightarrow> bool" where
  "truthy_w_max None = False"
| "truthy_w_max (Some WFalse) = False"
| "truthy_w_max (Some (WNumber x)) = (x \<noteq> 0)"

text \<open>
  \<^verbatim>\<open>if (x > kwargs.key) { x = kwargs.key; }\<close>: with the key absent the test is false and
  \<open>x\<close> keeps its value.
\<close>

fun cap_at_key :: "real \<Rightarrow> real option \<Rightarrow> real" where
  "cap_at_key x None = x"
| "cap_at_key x (Some y) = (if x > y then y else x)"

subsection \<open>Constants and helpers\<close>

definition kClo :: real where "kClo = 0.25"
definition bodyWeight :: real where "bodyWeight = 70"
definition metFactor :: real where "metFactor = 58.2"
definition sbc :: real where "sbc = 0.000000056697"
definition cSw :: real where "cSw = 170"
definition cDil :: real where "cDil = 120"
definition cStr :: real where "cStr = 0.5"
definition tempSkinNeutral :: real where "tempSkinNeutral = 33.7"
definition tempCoreNeutral :: real where "tempCoreNeutral = 36.8"
definition skinBloodFlowNeutral :: real where "skinBloodFlowNeutral = 6.3"


text \<open>
  \<^verbatim>\<open>round(number, precision)\<close> of utilities.js: \<^verbatim>\<open>Math.round\<close> takes the nearest
  integer, a tie going up.
\<close>

definition round_number :: "real \<Rightarrow> nat \<Rightarrow> real" where
  "round_number number precision =
     (let smudge = 10 ^ precision
      in of_int \<lfloor>number * smudge + 1 / 2\<rfloor> / smudge)"

definition roundArray :: "real list \<Rightarrow> nat \<Rightarrow> real list" where
  "roundArray array precision = map (\<lambda>value. round_number value precision) array"

text \<open>
  \<^verbatim>\<open>p_sat_torr\<close> is imported from psychrometrics/p\_sat\_torr.js, which is not among
  the files at hand: the functions that call it take it as their first argument.
\<close>

definition cal_vapor_pressure :: "(real \<Rightarrow> real) \<Rightarrow> real \<Rightarrow> real \<Rightarrow> real" where
  "cal_vapor_pressure p_sat_torr tdb rh = (rh * p_sat_torr tdb) / 100"

definition calculate_metabolic_rate :: "real \<Rightarrow> real \<Rightarrow> real" where
  "calculate_metabolic_rate met wme = (met - wme) * metFactor"

definition calculate_w_max :: "real \<Rightarrow> real \<Rightarrow> kwargs \<Rightarrow> real" where
  "calculate_w_max airSpeed clo kwargs =
     (let wMax = 0
      in if \<not> truthy_w_max (kw_w_max kwargs)
         then (let wMax = 0.38 * airSpeed powr (- 0.29)
               in if clo > 0 then 0.59 * airSpeed powr (- 0.08) else wMax)
         else wMax)"

definition calculate_thermal_sansation :: "real \<Rightarrow> real \<Rightarrow> real \<Rightarrow> real" where
  "calculate_thermal_sansation tBody rm wMax =
     (let tbmL = (0.194 / 58.15) * rm + 36.301;
          tbmH = (0.347 / 58.15) * rm + 36.669;
          tSens = 0.4685 * (tBody - tbmL)
      in if tBody \<ge> tbmL \<and> tBody < tbmH
         then (wMax * 4.7 * (tBody - tbmL)) / (tbmH - tbmL)
         else if tBody \<ge> tbmH then wMax * 4.7 + 0.4685 * (tBody - tbmH)
         else tSens)"

definition calculate_discomfort ::
  "real \<Rightarrow> real \<Rightarrow> real \<Rightarrow> real \<Rightarrow> real \<Rightarrow> real \<Rightarrow> real" where
  "calculate_discomfort eRsw eComfort eMax wMax eDiff tSens =
     (let disc = (4.7 * (eRsw - eComfort)) / (eMax * wMax - eComfort - eDiff)
      in if disc \<le> 0 then tSens else disc)"

definition calculate_pmv_gagge :: "real \<Rightarrow> real \<Rightarrow> real \<Rightarrow> real \<Rightarrow> real" where
  "calculate_pmv_gagge m eReq eComfort eDiff =
     (0.303 * exp (- 0.036 * m) + 0.028) * (eReq - eComfort - eDiff)"

definition calculate_pmv_set ::
  "real \<Rightarrow> real \<Rightarrow> real \<Rightarrow> real \<Rightarrow> real \<Rightarrow> real \<Rightarrow> real \<Rightarrow> real \<Rightarrow> real \<Rightarrow> real" where
  "calculate_pmv_set m eComfort eDiff hDS tSkin SET rm cRes qRes =
     (let drySet = hDS * (tSkin - SET);
          eReqSet = rm - cRes - qRes - drySet
      in (0.303 * exp (- 0.036 * m) + 0.028) * (eReqSet - eComfort - eDiff))"

definition calculate_percent_satisfied :: "real \<Rightarrow> real \<Rightarrow> real" where
  "calculate_percent_satisfied tOp v =
     100 * (1.13 * sqrt tOp - 0.24 * tOp + 2.7 * sqrt v - 0.99 * v)"

subsection \<open>The secant solvers for SET and ET\<close>

text \<open>
  The \<^verbatim>\<open>while (Math.abs(dx) > 0.01)\<close> loops start from \<^verbatim>\<open>dx = 100\<close>, so the body runs at
  least once; they have no iteration counter. One run of the body is \<open>set_step\<close>
  (\<open>et_step\<close>): the new estimate from the old one.
\<close>

definition set_step :: "real \<Rightarrow> real \<Rightarrow> real \<Rightarrow> real \<Rightarrow> real \<Rightarrow> real \<Rightarrow> real \<Rightarrow> real" where
  "set_step tSkin qSkin hDS pSSk w hES setOld =
     (let delta = 0.0001;
          err1 = qSkin - hDS * (tSkin - setOld)
                 - w * hES * (pSSk - 0.5 * exp (18.6686 - 4030.183 / (setOld + 235.0)));
          err2 = qSkin - hDS * (tSkin - (setOld + delta))
                 - w * hES * (pSSk - 0.5 * exp (18.6686 - 4030.183 / (setOld + delta + 235.0)))
      in setOld - (delta * err1) / (err2 - err1))"

partial_function (option) calculate_set_loop ::
  "real \<Rightarrow> real \<Rightarrow> real \<Rightarrow> real \<Rightarrow> real \<Rightarrow> real \<Rightarrow> real \<Rightarrow> real option" where
  "calculate_set_loop tSkin qSkin hDS pSSk w hES setOld =
     (if \<bar>set_step tSkin qSkin hDS pSSk w hES setOld - setOld\<bar> > 0.01
      then calculate_set_loop tSkin qSkin hDS pSSk w hES (set_step tSkin qSkin hDS pSSk w hES setOld)
      else Some (set_step tSkin qSkin hDS pSSk w hES setOld))"

definition calculate_set :: "real \<Rightarrow> real \<Rightarrow> real \<Rightarrow> real \<Rightarrow> real \<Rightarrow> real \<Rightarrow> real option" where
  "calculate_set tSkin qSkin hDS pSSk w hES =
     calculate_set_loop tSkin qSkin hDS pSSk w hES (tSkin - qSkin / hDS)"

definition et_step :: "real \<Rightarrow> real \<Rightarrow> real \<Rightarrow> real \<Rightarrow> real \<Rightarrow> real \<Rightarrow> real \<Rightarrow> real" where
  "et_step tSkin qSkin pSSk w hD hE etOld =
     (let delta = 0.0001;
          err1 = qSkin - hD * (tSkin - etOld)
                 - w * hE * (pSSk - 0.5 * exp (18.6686 - 4030.183 / (etOld + 235.0)));
          err2 = qSkin - hD * (tSkin - (etOld + delta))
                 - w * hE * (pSSk - 0.5 * exp (18.6686 - 4030.183 / (etOld + delta + 235.0)))
      in etOld - (delta * err1) / (err2 - err1))"

partial_function (option) calculate_et_loop ::
  "real \<Rightarrow> real \<Rightarrow> real \<Rightarrow> real \<Rightarrow> real \<Rightarrow> real \<Rightarrow> real \<Rightarrow> real option" where
  "calculate_et_loop tSkin qSkin pSSk w hD hE etOld =
     (if \<bar>et_step tSkin qSkin pSSk w hD hE etOld - etOld\<bar> > 0.01
      then calculate_et_loop tSkin qSkin pSSk w hD hE (et_step tSkin qSkin pSSk w hD hE etOld)
      else Some (et_step tSkin qSkin pSSk w hD hE etOld))"

definition calculate_et ::
  "real \<Rightarrow> real \<Rightarrow> real \<Rightarrow> real \<Rightarrow> real \<Rightarrow> real \<Rightarrow> real \<Rightarrow> real \<Rightarrow> real option" where
  "calculate_et tSkin qSkin pSSk w rA rClo rEa rEcl =
     (let hD = 1 / (rA + rClo);
          hE = 1 / (rEa + rEcl)
      in calculate_et_loop tSkin qSkin pSSk w hD hE (tSkin - qSkin / hD))"

subsection \<open>The variables of the simulation\<close>

text \<open>
  The quantities \<^verbatim>\<open>calculate_two_nodes\<close> fixes before its loop (fields \<open>c_\<close>) and the
  variables the loop assigns (fields \<open>s_\<close>); each field is the source's variable of that
  name.
\<close>

record sim_const =
  c_tdb :: real
  c_tr :: real
  c_met :: real
  c_vaporPressure :: real
  c_wme :: real
  c_bodySurfaceArea :: real
  c_bodyPosition :: string
  c_kwargs :: kwargs
  c_airSpeed :: real
  c_tempBodyNeutral :: real
  c_pressureInAtmospheres :: real
  c_rClo :: real
  c_fACl :: real
  c_lr :: real
  c_rm :: real
  c_eComfort :: real
  c_iCl :: real
  c_wMax :: real
  c_hCc :: real
  c_qRes :: real
  c_cRes :: real

record sim_state =
  s_tSkin :: real
  s_tCore :: real
  s_mBl :: real
  s_eSkin :: real
  s_qSensible :: real
  s_w :: real
  s_eRsw :: real
  s_eDiff :: real
  s_eMax :: real
  s_mRsw :: real
  s_eReq :: real
  s_rEa :: real
  s_rEcl :: real
  s_m :: real
  s_alfa :: real
  s_tBody :: real
  s_hR :: real
  s_hT :: real
  s_rA :: real
  s_tOp :: real

text \<open>Lines 633 to 693: the constants of a call.\<close>

definition initial_const ::
  "real \<Rightarrow> real \<Rightarrow> real \<Rightarrow> real \<Rightarrow> real \<Rightarrow> real \<Rightarrow> real \<Rightarrow> real \<Rightarrow> real \<Rightarrow> string \<Rightarrow> kwargs
   \<Rightarrow> sim_const" where
  "initial_const tdb tr v met clo vaporPressure wme bodySurfaceArea pAtmospheric bodyPosition
     kwargs =
     (let airSpeed = max v 0.1;
          alfa = 0.1;
          tempBodyNeutral = alfa * tempSkinNeutral + (1 - alfa) * tempCoreNeutral;
          pressureInAtmospheres = pAtmospheric / 101325;
          rClo = 0.155 * clo;
          fACl = 1.0 + 0.15 * clo;
          lr = 2.2 / pressureInAtmospheres;
          rm = calculate_metabolic_rate met wme;
          m = met * metFactor;
          eComfort = 0.42 * (rm - metFactor);
          iCl = (if clo > 0 then 0.45 else 1.0);
          wMax = calculate_w_max airSpeed clo kwargs;
          hCc = 3.0 * pressureInAtmospheres powr 0.53;
          hFc = 8.600001 * (airSpeed * pressureInAtmospheres) powr 0.53;
          hCc = max hCc hFc;
          hCc = (if \<not> truthy_bool (kw_calculate_ce kwargs) \<and> met > 0.85
                 then max hCc (5.66 * (met - 0.85) powr 0.39) else hCc);
          qRes = 0.0023 * m * (44.0 - vaporPressure);
          cRes = 0.0014 * m * (34.0 - tdb)
      in \<lparr>c_tdb = tdb, c_tr = tr, c_met = met, c_vaporPressure = vaporPressure,
          c_wme = wme, c_bodySurfaceArea = bodySurfaceArea, c_bodyPosition = bodyPosition,
          c_kwargs = kwargs, c_airSpeed = airSpeed, c_tempBodyNeutral = tempBodyNeutral,
          c_pressureInAtmospheres = pressureInAtmospheres, c_rClo = rClo, c_fACl = fACl,
          c_lr = lr, c_rm = rm, c_eComfort = eComfort, c_iCl = iCl, c_wMax = wMax,
          c_hCc = hCc, c_qRes = qRes, c_cRes = cRes\<rparr>)"

text \<open>The values of the variables when the loop is entered.\<close>

definition initial_state :: "sim_const \<Rightarrow> sim_state" where
  "initial_state c =
     (let alfa = 0.1;
          tSkin = tempSkinNeutral;
          tCore = tempCoreNeutral;
          hR = 4.7;
          hT = hR + c_hCc c
      in \<lparr>s_tSkin = tSkin, s_tCore = tCore, s_mBl = skinBloodFlowNeutral,
          s_eSkin = 0.1 * c_met c, s_qSensible = 0, s_w = 0, s_eRsw = 0, s_eDiff = 0,
          s_eMax = 0, s_mRsw = 0, s_eReq = 0, s_rEa = 0, s_rEcl = 0,
          s_m = c_met c * metFactor, s_alfa = alfa,
          s_tBody = alfa * tSkin + (1 - alfa) * tCore,
          s_hR = hR, s_hT = hT, s_rA = 1.0 / (c_fACl c * hT),
          s_tOp = (hR * c_tr c + c_hCc c * c_tdb c) / hT\<rparr>)"

subsection \<open>One simulated minute\<close>

definition iterationLimit :: nat where "iterationLimit = 150"

text \<open>
  One run of the body of \<^verbatim>\<open>while (!tcConverged)\<close>, up to the assignment of \<^verbatim>\<open>tClNew\<close>:
  the variables it assigns, and the new clothing temperature.
\<close>

definition tcl_update :: "sim_const \<Rightarrow> sim_state \<Rightarrow> real \<Rightarrow> sim_state" where
  "tcl_update c st tCl =
     (let hR = (if c_bodyPosition c = ''sitting''
                then 4.0 * 0.95 * sbc * ((tCl + c_tr c) / 2.0 + 273.15) ^ 3 * 0.7
                else 4.0 * 0.95 * sbc * ((tCl + c_tr c) / 2.0 + 273.15) ^ 3 * 0.73);
          hT = hR + c_hCc c;
          rA = 1.0 / (c_fACl c * hT);
          tOp = (hR * c_tr c + c_hCc c * c_tdb c) / hT
      in st\<lparr>s_hR := hR, s_hT := hT, s_rA := rA, s_tOp := tOp\<rparr>)"

definition tClNew :: "sim_const \<Rightarrow> sim_state \<Rightarrow> real \<Rightarrow> real" where
  "tClNew c st tCl =
     (let st' = tcl_update c st tCl
      in (s_rA st' * s_tSkin st' + c_rClo c * s_tOp st') / (s_rA st' + c_rClo c))"

text \<open>
  The loop itself. \<open>nIterations\<close> counts the runs of the body; the test against
  \<open>iterationLimit\<close> comes after the increment and before the loop condition is read
  again.
\<close>

function tcl_loop :: "sim_const \<Rightarrow> sim_state \<Rightarrow> real \<Rightarrow> nat \<Rightarrow> error + sim_state" where
  "tcl_loop c st tCl nIterations =
     (let st' = tcl_update c st tCl;
          tcConverged = (\<bar>tClNew c st tCl - tCl\<bar> \<le> 0.01)
      in if nIterations + 1 > iterationLimit then Inl (Error ''Max iterations exceeded'')
         else if tcConverged then Inr st'
         else tcl_loop c st' (tClNew c st tCl) (nIterations + 1))"
  by pat_completeness auto
termination
  by (relation "measure (\<lambda>(c, st, tCl, nIterations). iterationLimit + 1 - nIterations)") auto

declare tcl_loop.simps [simp del]

text \<open>Lines 723 to 779: the heat balance and the regulation signals of the minute.\<close>

definition heat_balance :: "sim_const \<Rightarrow> sim_state \<Rightarrow> sim_state" where
  "heat_balance c st =
     (let qSensible = (s_tSkin st - s_tOp st) / (s_rA st + c_rClo c);
          hfCs = (s_tCore st - s_tSkin st) * (5.28 + 1.163 * s_mBl st);
          sCore = s_m st - hfCs - c_qRes c - c_cRes c - c_wme c;
          sSkin = hfCs - qSensible - s_eSkin st;
          tcSk = 0.97 * s_alfa st * bodyWeight;
          tcCr = 0.97 * (1 - s_alfa st) * bodyWeight;
          dTSk = (sSkin * c_bodySurfaceArea c) / (tcSk * 60.0);
          dTCr = (sCore * c_bodySurfaceArea c) / (tcCr * 60.0);
          tSkin = s_tSkin st + dTSk;
          tCore = s_tCore st + dTCr;
          tBody = s_alfa st * tSkin + (1 - s_alfa st) * tCore;
          skSig = tSkin - tempSkinNeutral;
          warmSk = of_bool (skSig > 0) * skSig;
          colds = of_bool (- 1.0 * skSig > 0) * (- 1.0 * skSig);
          cRegSig = tCore - tempCoreNeutral;
          cWarm = of_bool (cRegSig > 0) * cRegSig;
          cCold = of_bool (- 1.0 * cRegSig > 0) * (- 1.0 * cRegSig);
          bdSig = tBody - c_tempBodyNeutral c;
          warmB = of_bool (bdSig > 0) * bdSig;
          mBl = (skinBloodFlowNeutral + cDil * cWarm) / (1 + cStr * colds);
          mBl = cap_at_key mBl (kw_max_skin_blood_flow (c_kwargs c));
          mBl = (if mBl < 0.5 then 0.5 else mBl);
          mRsw = cSw * warmB * exp (warmSk / 10.7);
          mRsw = cap_at_key mRsw (kw_max_sweating (c_kwargs c));
          eRsw = 0.68 * mRsw;
          rEa = 1.0 / (c_lr c * c_fACl c * c_hCc c);
          rEcl = c_rClo c / (c_lr c * c_iCl c);
          eReq = c_rm c - c_qRes c - c_cRes c - qSensible;
          eMax = (exp (18.6686 - 4030.183 / (tSkin + 235.0)) - c_vaporPressure c) / (rEa + rEcl);
          pRsw = eRsw / eMax;
          w = 0.06 + 0.94 * pRsw;
          eDiff = w * eMax - eRsw;
          capped = (w > c_wMax c);
          w = (if capped then c_wMax c else w);
          eRsw = (if capped then (c_wMax c / 0.94) * eMax else eRsw);
          eDiff = (if capped then 0.06 * (1.0 - c_wMax c / 0.94) * eMax else eDiff);
          eDiff = (if eMax < 0 then 0 else eDiff);
          eRsw = (if eMax < 0 then 0 else eRsw);
          w = (if eMax < 0 then c_wMax c else w);
          eSkin = eRsw + eDiff;
          mRsw = eRsw / 0.68;
          metShivering = 19.4 * colds * cCold;
          m = c_rm c + metShivering;
          alfa = 0.0417737 + 0.7451833 / (mBl + 0.585417)
      in st\<lparr>s_tSkin := tSkin, s_tCore := tCore, s_mBl := mBl, s_eSkin := eSkin,
            s_qSensible := qSensible, s_w := w, s_eRsw := eRsw, s_eDiff := eDiff,
            s_eMax := eMax, s_mRsw := mRsw, s_eReq := eReq, s_rEa := rEa, s_rEcl := rEcl,
            s_m := m, s_alfa := alfa, s_tBody := tBody\<rparr>)"

text \<open>The body of \<^verbatim>\<open>while (nSimulation < lengthTimeSimulation)\<close>.\<close>

definition time_step :: "sim_const \<Rightarrow> sim_state \<Rightarrow> error + sim_state" where
  "time_step c st =
     (let tCl = (s_rA st * s_tSkin st + c_rClo c * s_tOp st) / (s_rA st + c_rClo c)
      in case tcl_loop c st tCl 0 of
           Inl e \<Rightarrow> Inl e
         | Inr st' \<Rightarrow> Inr (heat_balance c st'))"

definition lengthTimeSimulation :: nat where "lengthTimeSimulation = 60"

function simulation_loop :: "sim_const \<Rightarrow> nat \<Rightarrow> sim_state \<Rightarrow> error + nat \<times> sim_state" where
  "simulation_loop c nSimulation st =
     (if nSimulation < lengthTimeSimulation
      then (case time_step c st of
              Inl e \<Rightarrow> Inl e
            | Inr st' \<Rightarrow> simulation_loop c (nSimulation + 1) st')
      else Inr (nSimulation, st))"
  by pat_completeness auto
termination
  by (relation "measure (\<lambda>(c, nSimulation, st). lengthTimeSimulation - nSimulation)") auto

declare simulation_loop.simps [simp del]

subsection \<open>The derived indices and the result\<close>

text \<open>
  The object \<^verbatim>\<open>calculate_two_nodes\<close> returns; each field \<open>r_x\<close> is its key \<^verbatim>\<open>x\<close>.
\<close>

record calc_result =
  r_set :: real
  r_eSkin :: real
  r_eRsw :: real
  r_eMax :: real
  r_qSensible :: real
  r_qSkin :: real
  r_qRes :: real
  r_tCore :: real
  r_tSkin :: real
  r_mBl :: real
  r_mRsw :: real
  r_w :: real
  r_wMax :: real
  r_et :: real
  r_pmvGagge :: real
  r_pmvSet :: real
  r_disc :: real
  r_tSens :: real

text \<open>
  Lines 782 to 846, after the loop; \<open>v\<close> is the air speed as the caller gave it, which
  only \<^verbatim>\<open>calculate_percent_satisfied\<close> reads.
\<close>

definition derived_indices :: "sim_const \<Rightarrow> real \<Rightarrow> sim_state \<Rightarrow> calc_result option" where
  "derived_indices c v st =
     (let qSkin = s_qSensible st + s_eSkin st;
          pSSk = exp (18.6686 - 4030.183 / (s_tSkin st + 235.0));
          hRS = s_hR st;
          hCS = 3.0 * c_pressureInAtmospheres c powr 0.53;
          hCS = (if \<not> truthy_bool (kw_calculate_ce (c_kwargs c)) \<and> c_met c > 0.85
                 then max hCS (5.66 * (c_met c - 0.85) powr 0.39) else hCS);
          hCS = (if hCS < 3.0 then 3.0 else hCS);
          hTS = hCS + hRS;
          rCloS = 1.52 / (c_met c - c_wme c / metFactor + 0.6944) - 0.1835;
          rClS = 0.155 * rCloS;
          fAClS = 1.0 + kClo * rCloS;
          fClS = 1.0 / (1.0 + 0.155 * fAClS * hTS * rCloS);
          iMS = 0.45;
          iClS = iMS * (hCS / hTS) * ((1 - fClS) / (hCS / hTS - fClS * iMS));
          rAS = 1.0 / (fAClS * hTS);
          rEaS = 1.0 / (c_lr c * fAClS * hCS);
          rEclS = rClS / (c_lr c * iClS);
          hDS = 1.0 / (rAS + rClS);
          hES = 1.0 / (rEaS + rEclS)
      in case calculate_set (s_tSkin st) qSkin hDS pSSk (s_w st) hES of
           None \<Rightarrow> None
         | Some SET \<Rightarrow>
             (case calculate_et (s_tSkin st) qSkin pSSk (s_w st) (s_rA st) (c_rClo c)
                     (s_rEa st) (s_rEcl st) of
                None \<Rightarrow> None
              | Some et \<Rightarrow>
                  (let tSens = calculate_thermal_sansation (s_tBody st) (c_rm c) (c_wMax c);
                       disc = calculate_discomfort (s_eRsw st) (c_eComfort c) (s_eMax st)
                                (c_wMax c) (s_eDiff st) tSens;
                       pmvGagge = calculate_pmv_gagge (s_m st) (s_eReq st) (c_eComfort c)
                                    (s_eDiff st);
                       pmvSet = calculate_pmv_set (s_m st) (c_eComfort c) (s_eDiff st) hDS
                                  (s_tSkin st) SET (c_rm c) (c_cRes c) (c_qRes c);
                       ps = calculate_percent_satisfied (s_tOp st) v
                   in Some \<lparr>r_set = SET, r_eSkin = s_eSkin st, r_eRsw = s_eRsw st,
                            r_eMax = s_eMax st, r_qSensible = s_qSensible st, r_qSkin = qSkin,
                            r_qRes = c_qRes c, r_tCore = s_tCore st, r_tSkin = s_tSkin st,
                            r_mBl = s_mBl st, r_mRsw = s_mRsw st, r_w = s_w st,
                            r_wMax = c_wMax c, r_et = et, r_pmvGagge = pmvGagge,
                            r_pmvSet = pmvSet, r_disc = disc, r_tSens = tSens\<rparr>)))"

text \<open>
  \<^verbatim>\<open>calculate_two_nodes\<close>. The statement \<^verbatim>\<open>eComfort = 0\<close> assigns to a variable declared
  \<^verbatim>\<open>const\<close>, which throws a \<^verbatim>\<open>TypeError\<close> when it is run, that is when
  \<^verbatim>\<open>eComfort < 0\<close>; nothing before it in the function throws.
\<close>

definition calculate_two_nodes ::
  "real \<Rightarrow> real \<Rightarrow> real \<Rightarrow> real \<Rightarrow> real \<Rightarrow> real \<Rightarrow> real \<Rightarrow> real \<Rightarrow> real \<Rightarrow> string \<Rightarrow> kwargs
   \<Rightarrow> (error + calc_result) option" where
  "calculate_two_nodes tdb tr v met clo vaporPressure wme bodySurfaceArea pAtmospheric
     bodyPosition kwargs =
     (let c = initial_const tdb tr v met clo vaporPressure wme bodySurfaceArea pAtmospheric
                bodyPosition kwargs
      in if c_eComfort c < 0 then Some (Inl TypeError)
         else (case simulation_loop c 0 (initial_state c) of
                 Inl e \<Rightarrow> Some (Inl e)
               | Inr (nSimulation, st) \<Rightarrow> map_option Inr (derived_indices c v st)))"

subsection \<open>The entry points\<close>

text \<open>
  The object with the rounded values, whose keys are \<^verbatim>\<open>e_skin\<close>, \<^verbatim>\<open>e_rsw\<close> and so on
  (\<open>w_skin\<close> is the key \<^verbatim>\<open>w\<close>, \<open>set_tmp\<close> the key \<^verbatim>\<open>set\<close>). \<^verbatim>\<open>two_nodes_array\<close> holds an
  array under each key.
\<close>

record 'a two_nodes_output =
  e_skin :: 'a
  e_rsw :: 'a
  e_max :: 'a
  q_sensible :: 'a
  q_skin :: 'a
  q_res :: 'a
  t_core :: 'a
  t_skin :: 'a
  m_bl :: 'a
  m_rsw :: 'a
  w_skin :: 'a
  w_max :: 'a
  set_tmp :: 'a
  et :: 'a
  pmv_gagge :: 'a
  pmv_set :: 'a
  disc :: 'a
  t_sens :: 'a

text \<open>
  \<^verbatim>\<open>two_nodes\<close> returns the rounded object when \<^verbatim>\<open>round\<close> is set, and the object of
  \<^verbatim>\<open>calculate_two_nodes\<close> as it is otherwise.
\<close>

datatype two_nodes_return = Rounded "real two_nodes_output" | Unrounded calc_result

definition round_result :: "calc_result \<Rightarrow> real two_nodes_output" where
  "round_result result =
     \<lparr>e_skin = round_number (r_eSkin result) 1, e_rsw = round_number (r_eRsw result) 1,
      e_max = round_number (r_eMax result) 1,
      q_sensible = round_number (r_qSensible result) 1,
      q_skin = round_number (r_qSkin result) 1, q_res = round_number (r_qRes result) 1,
      t_core = round_number (r_tCore result) 1, t_skin = round_number (r_tSkin result) 1,
      m_bl = round_number (r_mBl result) 1, m_rsw = round_number (r_mRsw result) 1,
      w_skin = round_number (r_w result) 1, w_max = round_number (r_wMax result) 1,
      set_tmp = round_number (r_set result) 1, et = round_number (r_et result) 1,
      pmv_gagge = round_number (r_pmvGagge result) 1,
      pmv_set = round_number (r_pmvSet result) 1, disc = round_number (r_disc result) 1,
      t_sens = round_number (r_tSens result) 1\<rparr>"

definition two_nodes ::
  "(real \<Rightarrow> real) \<Rightarrow> real \<Rightarrow> real \<Rightarrow> real \<Rightarrow> real \<Rightarrow> real \<Rightarrow> real \<Rightarrow> real \<Rightarrow> real \<Rightarrow> real \<Rightarrow> string
   \<Rightarrow> real \<Rightarrow> kwargs \<Rightarrow> (error + two_nodes_return) option" where
  "two_nodes p_sat_torr tdb tr v rh met clo wme body_surface_area p_atmospheric body_position
     max_skin_blood_flow kwargs =
     (let joint_kwargs = object_assign defaults_kwargs kwargs;
          vapor_pressure = cal_vapor_pressure p_sat_torr tdb rh
      in case calculate_two_nodes tdb tr v met clo vapor_pressure wme body_surface_area
                p_atmospheric body_position joint_kwargs of
           None \<Rightarrow> None
         | Some (Inl e) \<Rightarrow> Some (Inl e)
         | Some (Inr result) \<Rightarrow>
             Some (Inr (if truthy_bool (kw_round joint_kwargs) then Rounded (round_result result)
                        else Unrounded result)))"

subsection \<open>Arrays\<close>

text \<open>
  An array is a list; reading past its end gives \<^verbatim>\<open>undefined\<close>, here \<open>None\<close>.
  \<^verbatim>\<open>fill_array\<close> returns an array whose elements may be \<^verbatim>\<open>undefined\<close> (when it fills
  from an empty array), so its result is a list of options.
\<close>

definition js_index :: "'a list \<Rightarrow> nat \<Rightarrow> 'a option" where
  "js_index array index = (if index < length array then Some (array ! index) else None)"

definition js_index_filled :: "'a option list \<Rightarrow> nat \<Rightarrow> 'a option" where
  "js_index_filled array index = (if index < length array then array ! index else None)"

definition fill_array :: "'a list \<Rightarrow> 'b list \<Rightarrow> 'a option list" where
  "fill_array newArray tdbArray =
     (let requiredLen = length tdbArray
      in if length newArray < requiredLen then replicate requiredLen (js_index newArray 0)
         else map Some newArray)"

text \<open>
  The call \<^verbatim>\<open>calculate_two_nodes(tdbArray[index], ...)\<close> of the array loop, whose operands
  may be \<^verbatim>\<open>undefined\<close>. With every number defined it is \<open>calculate_two_nodes\<close>; an
  \<^verbatim>\<open>undefined\<close> body position is not \<^verbatim>\<open>"sitting"\<close> and takes the other branch, like any
  other string. An \<^verbatim>\<open>undefined\<close> number is \<^verbatim>\<open>NaN\<close> in the arithmetic, which the reals do
  not have; what the program does then is written out: the test \<^verbatim>\<open>eComfort < 0\<close> is
  decided by \<^verbatim>\<open>met\<close> and \<^verbatim>\<open>wme\<close> alone (and is false when one of them is \<^verbatim>\<open>NaN\<close>), and
  past it the \<^verbatim>\<open>NaN\<close> reaches \<^verbatim>\<open>tCl\<close> within three simulated minutes, where
  \<^verbatim>\<open>Math.abs(tClNew - tCl) <= 0.01\<close> stays false until the iteration limit throws.
\<close>

definition calculate_two_nodes_operands ::
  "real option \<Rightarrow> real option \<Rightarrow> real option \<Rightarrow> real option \<Rightarrow> real option \<Rightarrow> real option
   \<Rightarrow> real option \<Rightarrow> real option \<Rightarrow> real option \<Rightarrow> string option \<Rightarrow> kwargs
   \<Rightarrow> (error + calc_result) option" where
  "calculate_two_nodes_operands tdb tr v met clo vaporPressure wme bodySurfaceArea pAtmospheric
     bodyPosition kwargs =
     (case (tdb, tr, v, met, clo, vaporPressure, wme, bodySurfaceArea, pAtmospheric) of
        (Some tdb, Some tr, Some v, Some met, Some clo, Some vaporPressure, Some wme,
         Some bodySurfaceArea, Some pAtmospheric) \<Rightarrow>
          calculate_two_nodes tdb tr v met clo vaporPressure wme bodySurfaceArea pAtmospheric
            (case bodyPosition of None \<Rightarrow> ''undefined'' | Some position \<Rightarrow> position) kwargs
      | _ \<Rightarrow>
          (case (met, wme) of
             (Some met, Some wme) \<Rightarrow>
               if 0.42 * (calculate_metabolic_rate met wme - metFactor) < 0
               then Some (Inl TypeError)
               else Some (Inl (Error ''Max iterations exceeded''))
           | _ \<Rightarrow> Some (Inl (Error ''Max iterations exceeded''))))"

text \<open>
  The \<^verbatim>\<open>for\<close> loop of \<^verbatim>\<open>two_nodes_array\<close>. The source pushes the eighteen values of each
  result onto eighteen arrays; here the results are collected in one list, from which
  the arrays are read off afterwards.
\<close>

function array_loop ::
  "(nat \<Rightarrow> (error + calc_result) option) \<Rightarrow> nat \<Rightarrow> nat \<Rightarrow> calc_result list
   \<Rightarrow> (error + calc_result list) option" where
  "array_loop call n index results =
     (if index < n
      then (case call index of
              None \<Rightarrow> None
            | Some (Inl e) \<Rightarrow> Some (Inl e)
            | Some (Inr result) \<Rightarrow> array_loop call n (index + 1) (results @ [result]))
      else Some (Inr results))"
  by pat_completeness auto
termination
  by (relation "measure (\<lambda>(call, n, index, results). n - index)") auto

declare array_loop.simps [simp del]

definition result_arrays :: "(real list \<Rightarrow> real list) \<Rightarrow> calc_result list \<Rightarrow> real list two_nodes_output"
  where
  "result_arrays finish results =
     \<lparr>e_skin = finish (map r_eSkin results), e_rsw = finish (map r_eRsw results),
      e_max = finish (map r_eMax results), q_sensible = finish (map r_qSensible results),
      q_skin = finish (map r_qSkin results), q_res = finish (map r_qRes results),
      t_core = finish (map r_tCore results), t_skin = finish (map r_tSkin results),
      m_bl = finish (map r_mBl results), m_rsw = finish (map r_mRsw results),
      w_skin = finish (map r_w results), w_max = finish (map r_wMax results),
      set_tmp = finish (map r_set results), et = finish (map r_et results),
      pmv_gagge = finish (map r_pmvGagge results), pmv_set = finish (map r_pmvSet results),
      disc = finish (map r_disc results), t_sens = finish (map r_tSens results)\<rparr>"

definition two_nodes_array ::
  "(real \<Rightarrow> real) \<Rightarrow> real list \<Rightarrow> real list \<Rightarrow> real list \<Rightarrow> real list \<Rightarrow> real list \<Rightarrow> real list
   \<Rightarrow> real list \<Rightarrow> real list \<Rightarrow> real list \<Rightarrow> string list \<Rightarrow> real list \<Rightarrow> kwargs
   \<Rightarrow> (error + real list two_nodes_output) option" where
  "two_nodes_array p_sat_torr tdbArray trArray vArray rhArray metArray cloArray wme
     body_surface_area p_atmospheric body_position max_skin_blood_flow kwargs =
     (let joint_kwargs = object_assign defaults_kwargs kwargs;
          vaporPressureArray =
            map (\<lambda>index. map_option (\<lambda>tdb. cal_vapor_pressure p_sat_torr tdb (rhArray ! index))
                           (js_index tdbArray index))
              [0 ..< length rhArray];
          wmeArray = fill_array wme tdbArray;
          bodySurfaceArray = fill_array body_surface_area tdbArray;
          pAtmArray = fill_array p_atmospheric tdbArray;
          bodyPositionArray = fill_array body_position tdbArray;
          maxSkinBloodFlowArray = fill_array max_skin_blood_flow tdbArray
      in case array_loop
                (\<lambda>index. calculate_two_nodes_operands (js_index tdbArray index)
                   (js_index trArray index) (js_index vArray index) (js_index metArray index)
                   (js_index cloArray index) (js_index_filled vaporPressureArray index)
                   (js_index_filled wmeArray index) (js_index_filled bodySurfaceArray index)
                   (js_index_filled pAtmArray index) (js_index_filled bodyPositionArray index)
                   joint_kwargs)
                (length tdbArray) 0 [] of
           None \<Rightarrow> None
         | Some (Inl e) \<Rightarrow> Some (Inl e)
         | Some (Inr results) \<Rightarrow>
             Some (Inr (if truthy_bool (kw_round joint_kwargs)
                        then result_arrays (\<lambda>array. roundArray array 1) results
                        else result_arrays (\<lambda>array. array) results)))"

section \<open>Notions used to state the properties\<close>

text \<open>
  The scalar result seen through the keys of the array result: an array of one element
  under each key. For the unrounded object of \<^verbatim>\<open>two_nodes\<close>, whose keys are those of
  \<^verbatim>\<open>calculate_two_nodes\<close> (\<^verbatim>\<open>eSkin\<close>, \<^verbatim>\<open>wMax\<close>, ...), the value under \<^verbatim>\<open>e_skin\<close> is the
  one under \<^verbatim>\<open>eSkin\<close>, and so on.
\<close>

fun as_arrays :: "two_nodes_return \<Rightarrow> real list two_nodes_output" where
  "as_arrays (Rounded out) =
     \<lparr>e_skin = [e_skin out], e_rsw = [e_rsw out], e_max = [e_max out],
      q_sensible = [q_sensible out], q_skin = [q_skin out], q_res = [q_res out],
      t_core = [t_core out], t_skin = [t_skin out], m_bl = [m_bl out], m_rsw = [m_rsw out],
      w_skin = [w_skin out], w_max = [w_max out], set_tmp = [set_tmp out], et = [et out],
      pmv_gagge = [pmv_gagge out], pmv_set = [pmv_set out], disc = [disc out],
      t_sens = [t_sens out]\<rparr>"
| "as_arrays (Unrounded result) =
     \<lparr>e_skin = [r_eSkin result], e_rsw = [r_eRsw result], e_max = [r_eMax result],
      q_sensible = [r_qSensible result], q_skin = [r_qSkin result], q_res = [r_qRes result],
      t_core = [r_tCore result], t_skin = [r_tSkin result], m_bl = [r_mBl result],
      m_rsw = [r_mRsw result], w_skin = [r_w result], w_max = [r_wMax result],
      set_tmp = [r_set result], et = [r_et result], pmv_gagge = [r_pmvGagge result],
      pmv_set = [r_pmvSet result], disc = [r_disc result], t_sens = [r_tSens result]\<rparr>"

text \<open>
  Broadcasting as the specification words it: an array shorter than \<open>n\<close> becomes \<open>n\<close>
  copies of its first element, any other array is left as it is.
\<close>

definition broadcast :: "'a list \<Rightarrow> nat \<Rightarrow> 'a list" where
  "broadcast array n = (if length array < n then replicate n (hd array) else array)"

text \<open>\<open>n\<close> time-step updates in a row, stopping at the first that throws.\<close>

primrec time_steps :: "nat \<Rightarrow> sim_const \<Rightarrow> sim_state \<Rightarrow> error + sim_state" where
  "time_steps 0 c st = Inr st"
| "time_steps (Suc n) c st =
     (case time_step c st of Inl e \<Rightarrow> Inl e | Inr st' \<Rightarrow> time_steps n c st')"






text \<open>
  The clothing temperature a time step starts its inner loop with, the states and
  clothing temperatures after \<open>k\<close> runs of the body of that loop, and the test the body
  makes in its run number \<open>k\<close> (counted from \<open>0\<close>): the new clothing temperature is within
  \<open>0.01\<close> of the old one.
\<close>

definition tCl_initial :: "sim_const \<Rightarrow> sim_state \<Rightarrow> real" where
  "tCl_initial c st = (s_rA st * s_tSkin st + c_rClo c * s_tOp st) / (s_rA st + c_rClo c)"

primrec tcl_seq :: "sim_const \<Rightarrow> sim_state \<Rightarrow> real \<Rightarrow> nat \<Rightarrow> sim_state \<times> real" where
  "tcl_seq c st tCl 0 = (st, tCl)"
| "tcl_seq c st tCl (Suc k) =
     (tcl_update c (fst (tcl_seq c st tCl k)) (snd (tcl_seq c st tCl k)),
      tClNew c (fst (tcl_seq c st tCl k)) (snd (tcl_seq c st tCl k)))"

definition tcl_converged_at :: "sim_const \<Rightarrow> sim_state \<Rightarrow> real \<Rightarrow> nat \<Rightarrow> bool" where
  "tcl_converged_at c st tCl k =
     (\<bar>snd (tcl_seq c st tCl (Suc k)) - snd (tcl_seq c st tCl k)\<bar> \<le> 0.01)"

text \<open>
  The constants of two calls with the default options, a standing person, \<^verbatim>\<open>met = 1.85\<close>,
  an air speed of 1 m/s and 50 \% relative humidity: one with air at 10000 degrees and
  walls at absolute zero and \<^verbatim>\<open>clo = 1\<close>, one with air and walls at 25 degrees and
  \<^verbatim>\<open>clo = 0.5\<close>. The saturation pressure is taken as the exponential of the solvers.
\<close>

definition hot_const :: sim_const where
  "hot_const =
     initial_const 10000 (- 273.15) 1 1.85 1
       (cal_vapor_pressure (\<lambda>t. exp (18.6686 - 4030.183 / (t + 235))) 10000 50) 0 1.8258 101325
       ''standing'' (object_assign defaults_kwargs defaults_kwargs)"

definition mild_const :: sim_const where
  "mild_const =
     initial_const 25 25 1 1.85 0.5
       (cal_vapor_pressure (\<lambda>t. exp (18.6686 - 4030.183 / (t + 235))) 25 50) 0 1.8258 101325
       ''standing'' (object_assign defaults_kwargs defaults_kwargs)"





section \<open>Properties\<close>

subsection \<open>Skin blood flow and its upper limit\<close>

lemma heat_balance_mBl: "0.5 \<le> s_mBl (heat_balance c st)"
  by (simp add: heat_balance_def Let_def)

text \<open>
  C1. The claim is that the returned \<^verbatim>\<open>m_bl\<close> never exceeds the \<^verbatim>\<open>max_skin_blood_flow\<close> the
  caller passes. \<^verbatim>\<open>two_nodes\<close> does not hand that argument on: the clamp in the loop reads
  \<^verbatim>\<open>kwargs.max_skin_blood_flow\<close>, a key the defaults do not have. The result of a call is
  therefore the same for every value of the argument, so no value of it bounds \<^verbatim>\<open>m_bl\<close>.
\<close>

theorem two_nodes_ignores_max_skin_blood_flow:
  "two_nodes p_sat_torr tdb tr v rh met clo wme body_surface_area p_atmospheric body_position
     max_skin_blood_flow kwargs =
   two_nodes p_sat_torr tdb tr v rh met clo wme body_surface_area p_atmospheric body_position
     max_skin_blood_flow' kwargs"
  by (simp add: two_nodes_def)

subsection \<open>The option \<open>w_max\<close>\<close>

text \<open>
  C2. The claim is that a number given as \<^verbatim>\<open>w_max\<close> is the limit \<^verbatim>\<open>calculate_w_max\<close> returns.
  The function computes the limit when the option is falsy and returns its initial
  \<open>0\<close> otherwise: with \<^verbatim>\<open>w_max: 0.5\<close> the limit is \<open>0\<close>, whatever the air speed and the
  clothing.
\<close>

theorem calculate_w_max_given_number:
  "calculate_w_max airSpeed clo
     (object_assign defaults_kwargs (kwargs\<lparr>kw_w_max := Some (WNumber 0.5)\<rparr>)) = 0"
  by (simp add: calculate_w_max_def object_assign_def assign_key_def)

subsection \<open>The comfort evaporation baseline\<close>

text \<open>
  C3. The claim is that a call with \<^verbatim>\<open>rm < 58.2\<close> returns normally, with \<^verbatim>\<open>eComfort\<close> taken
  as \<open>0\<close>. The assignment that would set it to \<open>0\<close> targets a \<^verbatim>\<open>const\<close>: at
  \<^verbatim>\<open>two_nodes(25, 25, 0.3, 50, 0.9, 0.5)\<close>, where \<^verbatim>\<open>met - wme = 0.9\<close>, the call throws a
  \<^verbatim>\<open>TypeError\<close>.
\<close>

theorem two_nodes_low_met_throws:
  "two_nodes p_sat_torr 25 25 0.3 50 0.9 0.5 0 1.8258 101325 ''standing'' 90 kwargs
   = Some (Inl TypeError)"
  by (simp add: two_nodes_def calculate_two_nodes_def initial_const_def Let_def
      calculate_metabolic_rate_def metFactor_def)

subsection \<open>Arrays of one element\<close>

lemma array_loop_one:
  "array_loop call (Suc 0) 0 [] =
     (case call 0 of
        None \<Rightarrow> None
      | Some (Inl e) \<Rightarrow> Some (Inl e)
      | Some (Inr r) \<Rightarrow> Some (Inr [r]))"
  by (simp add: array_loop.simps[of call "Suc 0" 0] array_loop.simps[of call "Suc 0" "Suc 0"]
      split: option.splits sum.splits)

lemma operands_defined:
  "calculate_two_nodes_operands (Some tdb) (Some tr) (Some v) (Some met) (Some clo)
     (Some vaporPressure) (Some wme) (Some bodySurfaceArea) (Some pAtmospheric)
     (Some bodyPosition) kwargs =
   calculate_two_nodes tdb tr v met clo vaporPressure wme bodySurfaceArea pAtmospheric
     bodyPosition kwargs"
  by (simp add: calculate_two_nodes_operands_def)

text \<open>
  C5. With every parameter wrapped as an array of one element, \<^verbatim>\<open>two_nodes_array\<close> fails,
  loops or returns as \<^verbatim>\<open>two_nodes\<close> does on the elements, and when it returns, each of its
  arrays holds exactly the value \<^verbatim>\<open>two_nodes\<close> returns for that quantity (rounded to one
  decimal by both when \<^verbatim>\<open>round\<close> is set, unrounded by both otherwise).
\<close>

theorem two_nodes_array_singleton:
  "two_nodes_array p_sat_torr [tdb] [tr] [v] [rh] [met] [clo] [wme] [body_surface_area]
     [p_atmospheric] [body_position] [max_skin_blood_flow] kwargs =
   map_option (map_sum id as_arrays)
     (two_nodes p_sat_torr tdb tr v rh met clo wme body_surface_area p_atmospheric body_position
        max_skin_blood_flow kwargs)"
  by (simp add: two_nodes_array_def two_nodes_def Let_def fill_array_def js_index_def
      js_index_filled_def array_loop_one operands_defined result_arrays_def roundArray_def
      round_result_def
      split: option.splits sum.splits)

subsection \<open>Sixty time steps\<close>

lemma simulation_loop_steps:
  "nSimulation \<le> lengthTimeSimulation \<Longrightarrow>
   simulation_loop c nSimulation st =
     (case time_steps (lengthTimeSimulation - nSimulation) c st of
        Inl e \<Rightarrow> Inl e
      | Inr st' \<Rightarrow> Inr (lengthTimeSimulation, st'))"
proof (induction "lengthTimeSimulation - nSimulation" arbitrary: nSimulation st)
  case 0
  then have "nSimulation = lengthTimeSimulation" by simp
  then show ?case by (simp add: simulation_loop.simps[of c lengthTimeSimulation st])
next
  case (Suc k)
  then have lt: "nSimulation < lengthTimeSimulation"
    and k: "k = lengthTimeSimulation - (nSimulation + 1)"
    and d: "lengthTimeSimulation - nSimulation = Suc k" by auto
  show ?case
  proof (cases "time_step c st")
    case (Inl e)
    then show ?thesis using lt d by (simp add: simulation_loop.simps[of c nSimulation st])
  next
    case (Inr st')
    have "simulation_loop c (nSimulation + 1) st' =
      (case time_steps (lengthTimeSimulation - (nSimulation + 1)) c st' of
         Inl e \<Rightarrow> Inl e
       | Inr st' \<Rightarrow> Inr (lengthTimeSimulation, st'))"
      using Suc.hyps(1)[OF k] lt by simp
    then show ?thesis using lt d k Inr
      by (simp add: simulation_loop.simps[of c nSimulation st])
  qed
qed

lemma time_step_tcl:
  "time_step c st =
     (case tcl_loop c st (tCl_initial c st) 0 of
        Inl e \<Rightarrow> Inl e
      | Inr st' \<Rightarrow> Inr (heat_balance c st'))"
  by (simp add: time_step_def tCl_initial_def)

text \<open>
  C7. The claim is that the time-step update runs sixty times on every input on which no
  convergence failure occurs. The loop is sixty updates in a row, ending with
  \<^verbatim>\<open>nSimulation = 60\<close> or with the exception of the first update that throws, and the
  derived indices are computed from the state it leaves. But \<^verbatim>\<open>calculate_two_nodes\<close> reaches
  the loop only when \<^verbatim>\<open>eComfort\<close> is not negative: at
  \<^verbatim>\<open>calculate_two_nodes(25, 25, 0.3, 0.9, 0.5, ...)\<close>, where \<^verbatim>\<open>met - wme = 0.9\<close>, the assignment
  to the \<^verbatim>\<open>const\<close> throws a \<^verbatim>\<open>TypeError\<close> before the loop, so no update runs and no index is
  computed, although no convergence failure has occurred.
\<close>

theorem low_met_runs_no_time_step:
  "calculate_two_nodes 25 25 0.3 0.9 0.5 vaporPressure 0 1.8258 101325 ''standing'' kwargs =
     Some (Inl TypeError) \<and>
   simulation_loop c 0 st =
     (case time_steps 60 c st of Inl e \<Rightarrow> Inl e | Inr st' \<Rightarrow> Inr (60, st')) \<and>
   calculate_two_nodes tdb tr v met clo vaporPressure wme bodySurfaceArea pAtmospheric
     bodyPosition kwargs =
     (let c = initial_const tdb tr v met clo vaporPressure wme bodySurfaceArea pAtmospheric
                bodyPosition kwargs
      in if c_eComfort c < 0 then Some (Inl TypeError)
         else (case time_steps 60 c (initial_state c) of
                 Inl e \<Rightarrow> Some (Inl e)
               | Inr st \<Rightarrow> map_option Inr (derived_indices c v st)))"
proof (intro conjI)
  show "calculate_two_nodes 25 25 0.3 0.9 0.5 vaporPressure 0 1.8258 101325 ''standing'' kwargs =
     Some (Inl TypeError)"
    by (simp add: calculate_two_nodes_def initial_const_def Let_def
        calculate_metabolic_rate_def metFactor_def)
  show "simulation_loop c 0 st =
     (case time_steps 60 c st of Inl e \<Rightarrow> Inl e | Inr st' \<Rightarrow> Inr (60, st'))"
    using simulation_loop_steps[of 0 c st]
    by (simp add: lengthTimeSimulation_def split: sum.splits)
  show "calculate_two_nodes tdb tr v met clo vaporPressure wme bodySurfaceArea pAtmospheric
     bodyPosition kwargs =
     (let c = initial_const tdb tr v met clo vaporPressure wme bodySurfaceArea pAtmospheric
                bodyPosition kwargs
      in if c_eComfort c < 0 then Some (Inl TypeError)
         else (case time_steps 60 c (initial_state c) of
                 Inl e \<Rightarrow> Some (Inl e)
               | Inr st \<Rightarrow> map_option Inr (derived_indices c v st)))"
    using simulation_loop_steps[of 0]
    by (simp add: calculate_two_nodes_def lengthTimeSimulation_def Let_def split: sum.splits)
qed

subsection \<open>Broadcasting\<close>

lemma fill_array_broadcast:
  "array \<noteq> [] \<Longrightarrow>
   fill_array (broadcast array (length tdbArray)) tdbArray = fill_array array tdbArray"
  by (cases array) (simp_all add: fill_array_def broadcast_def js_index_def Let_def)








subsection \<open>The air speed\<close>

lemma initial_const_low_air_speed:
  "v1 \<le> 0.1 \<Longrightarrow> v2 \<le> 0.1 \<Longrightarrow>
   initial_const tdb tr v1 met clo vaporPressure wme bodySurfaceArea pAtmospheric bodyPosition
     kwargs =
   initial_const tdb tr v2 met clo vaporPressure wme bodySurfaceArea pAtmospheric bodyPosition
     kwargs"
  by (simp add: initial_const_def max_def)

lemma derived_indices_air_speed: "derived_indices c v1 st = derived_indices c v2 st"
  unfolding derived_indices_def Let_def by (rule refl)

lemma calculate_two_nodes_low_air_speed:
  assumes "v1 \<le> 0.1" "v2 \<le> 0.1"
  shows "calculate_two_nodes tdb tr v1 met clo vaporPressure wme bodySurfaceArea pAtmospheric
           bodyPosition kwargs =
         calculate_two_nodes tdb tr v2 met clo vaporPressure wme bodySurfaceArea pAtmospheric
           bodyPosition kwargs"
  unfolding calculate_two_nodes_def initial_const_low_air_speed[OF assms]
    derived_indices_air_speed[of _ v1 _ v2] ..

lemma calculate_two_nodes_clamped:
  "calculate_two_nodes tdb tr v met clo vaporPressure wme bodySurfaceArea pAtmospheric
     bodyPosition kwargs =
   calculate_two_nodes tdb tr (max v 0.1) met clo vaporPressure wme bodySurfaceArea
     pAtmospheric bodyPosition kwargs"
proof -
  have c: "initial_const tdb tr v met clo vaporPressure wme bodySurfaceArea pAtmospheric
             bodyPosition kwargs =
           initial_const tdb tr (max v 0.1) met clo vaporPressure wme bodySurfaceArea
             pAtmospheric bodyPosition kwargs"
    by (simp add: initial_const_def)
  show ?thesis
    unfolding calculate_two_nodes_def c derived_indices_air_speed[of _ v _ "max v 0.1"] ..
qed

text \<open>
  C10. The air speed the model works with is \<open>max v 0.1\<close>: that is the value of
  \<^verbatim>\<open>airSpeed\<close>, from which \<^verbatim>\<open>wMax\<close> and the convection coefficient \<^verbatim>\<open>hCc\<close> are computed, and
  a call with \<open>v\<close> returns what the call with \<open>max v 0.1\<close> returns. So two air speeds of at
  most 0.1 m/s give the same result, all other arguments being equal; the second may be
  0.1 itself, so a speed below 0.1 gives the result of 0.1.
\<close>

theorem two_nodes_low_air_speed:
  "c_airSpeed (initial_const tdb tr v met clo vaporPressure wme body_surface_area p_atmospheric
     body_position joint_kwargs) = max v 0.1 \<and>
   c_wMax (initial_const tdb tr v met clo vaporPressure wme body_surface_area p_atmospheric
     body_position joint_kwargs) = calculate_w_max (max v 0.1) clo joint_kwargs \<and>
   c_hCc (initial_const tdb tr v met clo vaporPressure wme body_surface_area p_atmospheric
     body_position joint_kwargs) =
     (let hCc = max (3.0 * (p_atmospheric / 101325) powr 0.53)
                  (8.600001 * (max v 0.1 * (p_atmospheric / 101325)) powr 0.53)
      in if \<not> truthy_bool (kw_calculate_ce joint_kwargs) \<and> met > 0.85
         then max hCc (5.66 * (met - 0.85) powr 0.39) else hCc) \<and>
   two_nodes p_sat_torr tdb tr v rh met clo wme body_surface_area p_atmospheric body_position
     max_skin_blood_flow kwargs =
   two_nodes p_sat_torr tdb tr (max v 0.1) rh met clo wme body_surface_area p_atmospheric
     body_position max_skin_blood_flow kwargs \<and>
   (v1 \<le> 0.1 \<longrightarrow> v2 \<le> 0.1 \<longrightarrow>
      two_nodes p_sat_torr tdb tr v1 rh met clo wme body_surface_area p_atmospheric
        body_position max_skin_blood_flow kwargs =
      two_nodes p_sat_torr tdb tr v2 rh met clo wme body_surface_area p_atmospheric
        body_position max_skin_blood_flow kwargs)"
proof (intro conjI impI)
  show "c_airSpeed (initial_const tdb tr v met clo vaporPressure wme body_surface_area
     p_atmospheric body_position joint_kwargs) = max v 0.1"
    by (simp add: initial_const_def Let_def)
  show "c_wMax (initial_const tdb tr v met clo vaporPressure wme body_surface_area p_atmospheric
     body_position joint_kwargs) = calculate_w_max (max v 0.1) clo joint_kwargs"
    by (simp add: initial_const_def Let_def)
  show "c_hCc (initial_const tdb tr v met clo vaporPressure wme body_surface_area p_atmospheric
     body_position joint_kwargs) =
     (let hCc = max (3.0 * (p_atmospheric / 101325) powr 0.53)
                  (8.600001 * (max v 0.1 * (p_atmospheric / 101325)) powr 0.53)
      in if \<not> truthy_bool (kw_calculate_ce joint_kwargs) \<and> met > 0.85
         then max hCc (5.66 * (met - 0.85) powr 0.39) else hCc)"
    by (simp add: initial_const_def Let_def)
  show "two_nodes p_sat_torr tdb tr v rh met clo wme body_surface_area p_atmospheric
     body_position max_skin_blood_flow kwargs =
   two_nodes p_sat_torr tdb tr (max v 0.1) rh met clo wme body_surface_area p_atmospheric
     body_position max_skin_blood_flow kwargs"
    unfolding two_nodes_def
      calculate_two_nodes_clamped[of tdb tr v met clo _ wme body_surface_area p_atmospheric
        body_position] ..
next
  assume v: "v1 \<le> 0.1" "v2 \<le> 0.1"
  show "two_nodes p_sat_torr tdb tr v1 rh met clo wme body_surface_area p_atmospheric
        body_position max_skin_blood_flow kwargs =
      two_nodes p_sat_torr tdb tr v2 rh met clo wme body_surface_area p_atmospheric
        body_position max_skin_blood_flow kwargs"
    unfolding two_nodes_def
      calculate_two_nodes_low_air_speed[OF v, of tdb tr met clo _ wme body_surface_area
        p_atmospheric body_position] ..
qed

theorem two_nodes_low_air_speed_witness:
  "(0.05 :: real) \<le> 0.1 \<and> (0.1 :: real) \<le> 0.1 \<and>
   two_nodes (\<lambda>t. exp (18.6686 - 4030.183 / (t + 235))) 25 25 0.05 50 1.2 0.5 0 1.8258 101325
     ''standing'' 90 defaults_kwargs =
   two_nodes (\<lambda>t. exp (18.6686 - 4030.183 / (t + 235))) 25 25 0.1 50 1.2 0.5 0 1.8258 101325
     ''standing'' 90 defaults_kwargs \<and>
   c_airSpeed (initial_const 25 25 0.05 1.2 0.5 0 0 1.8258 101325 ''standing'' defaults_kwargs)
     = 0.1"
  using two_nodes_low_air_speed[where ?v1.0 = "0.05" and ?v2.0 = "0.1" and v = "0.05"
      and p_sat_torr = "\<lambda>t. exp (18.6686 - 4030.183 / (t + 235))" and tdb = 25 and tr = 25
      and rh = 50 and met = "1.2" and clo = "0.5" and wme = 0 and body_surface_area = "1.8258"
      and p_atmospheric = 101325 and body_position = "''standing''"
      and max_skin_blood_flow = 90 and kwargs = defaults_kwargs and vaporPressure = 0
      and joint_kwargs = defaults_kwargs]
  by simp

subsection \<open>The secant solvers\<close>


























































subsection \<open>The iteration limit of the clothing temperature\<close>

lemma tcl_loop_unfold:
  "tcl_loop c (fst (tcl_seq c st tCl k)) (snd (tcl_seq c st tCl k)) k =
     (if k + 1 > iterationLimit then Inl (Error ''Max iterations exceeded'')
      else if tcl_converged_at c st tCl k then Inr (fst (tcl_seq c st tCl (Suc k)))
      else tcl_loop c (fst (tcl_seq c st tCl (Suc k))) (snd (tcl_seq c st tCl (Suc k))) (Suc k))"
  by (subst tcl_loop.simps) (simp add: Let_def tcl_converged_at_def)

lemma tcl_loop_exceeds:
  "k \<le> iterationLimit \<Longrightarrow>
   (\<And>j. k \<le> j \<Longrightarrow> j < iterationLimit \<Longrightarrow> \<not> tcl_converged_at c st tCl j) \<Longrightarrow>
   tcl_loop c (fst (tcl_seq c st tCl k)) (snd (tcl_seq c st tCl k)) k =
     Inl (Error ''Max iterations exceeded'')"
proof (induction "iterationLimit - k" arbitrary: k)
  case 0
  then have "k + 1 > iterationLimit" by simp
  then show ?case by (subst tcl_loop_unfold) (simp only: if_True)
next
  case (Suc d)
  then have lt: "k < iterationLimit" by simp
  have nc: "\<not> tcl_converged_at c st tCl k" using Suc.prems(2)[of k] lt by simp
  have "tcl_loop c (fst (tcl_seq c st tCl (Suc k))) (snd (tcl_seq c st tCl (Suc k))) (Suc k) =
     Inl (Error ''Max iterations exceeded'')"
  proof (rule Suc.hyps(1))
    show "d = iterationLimit - Suc k" using Suc.hyps(2) by simp
    show "Suc k \<le> iterationLimit" using lt by simp
    fix j assume "Suc k \<le> j" "j < iterationLimit"
    then show "\<not> tcl_converged_at c st tCl j" using Suc.prems(2)[of j] by simp
  qed
  moreover have "\<not> k + 1 > iterationLimit" using lt by simp
  ultimately show ?case using nc by (subst tcl_loop_unfold) (simp only: if_False)
qed

lemma tcl_loop_converges:
  "k \<le> j \<Longrightarrow> j < iterationLimit \<Longrightarrow> tcl_converged_at c st tCl j \<Longrightarrow>
   (\<And>i. k \<le> i \<Longrightarrow> i < j \<Longrightarrow> \<not> tcl_converged_at c st tCl i) \<Longrightarrow>
   tcl_loop c (fst (tcl_seq c st tCl k)) (snd (tcl_seq c st tCl k)) k =
     Inr (fst (tcl_seq c st tCl (Suc j)))"
proof (induction "j - k" arbitrary: k)
  case 0
  then have kj: "k = j" by simp
  have "\<not> j + 1 > iterationLimit" using 0(3) by simp
  then show ?case unfolding kj using 0(4) by (subst tcl_loop_unfold) (simp only: if_False if_True)
next
  case (Suc d)
  then have lt: "k < j" by simp
  have nc: "\<not> tcl_converged_at c st tCl k" using Suc.prems(4)[of k] lt by simp
  have "tcl_loop c (fst (tcl_seq c st tCl (Suc k))) (snd (tcl_seq c st tCl (Suc k))) (Suc k) =
     Inr (fst (tcl_seq c st tCl (Suc j)))"
  proof (rule Suc.hyps(1))
    show "d = j - Suc k" using Suc.hyps(2) by simp
    show "Suc k \<le> j" using lt by simp
    show "j < iterationLimit" by (rule Suc.prems(2))
    show "tcl_converged_at c st tCl j" by (rule Suc.prems(3))
    fix i assume "Suc k \<le> i" "i < j"
    then show "\<not> tcl_converged_at c st tCl i" using Suc.prems(4)[of i] by simp
  qed
  moreover have "\<not> k + 1 > iterationLimit" using lt Suc.prems(2) by simp
  ultimately show ?case using nc by (subst tcl_loop_unfold) (simp only: if_False)
qed

lemma time_steps_add:
  "time_steps (n + m) c st =
     (case time_steps n c st of Inl e \<Rightarrow> Inl e | Inr st' \<Rightarrow> time_steps m c st')"
proof (induction n arbitrary: st)
  case 0
  show ?case by simp
next
  case (Suc n)
  show ?case
  proof (cases "time_step c st")
    case (Inl e)
    then show ?thesis by simp
  next
    case (Inr st')
    then show ?thesis using Suc.IH[of st'] by simp
  qed
qed

lemma time_steps_fail:
  assumes "time_steps n c st0 = Inr st" "time_step c st = Inl e" "n < m"
  shows "time_steps m c st0 = Inl e"
proof -
  from less_imp_Suc_add[OF assms(3)] obtain k where "m = Suc (n + k)" ..
  then have m: "m = n + Suc k" by simp
  have "time_steps (n + Suc k) c st0 =
      (case time_steps n c st0 of Inl e \<Rightarrow> Inl e | Inr st' \<Rightarrow> time_steps (Suc k) c st')"
    by (rule time_steps_add)
  also have "\<dots> = Inl e" using assms(1,2) by simp
  finally show ?thesis by (simp only: m)
qed

lemma tcl_update_tSkin: "s_tSkin (tcl_update c st t) = s_tSkin st"
  by (simp add: tcl_update_def Let_def)

lemma tcl_seq_tSkin: "s_tSkin (fst (tcl_seq c st tCl k)) = s_tSkin st"
  by (induction k) (simp_all add: tcl_update_tSkin)

lemma weighted_mean:
  fixes f rc hR hc ts tr tdb :: real
  assumes "0 < f" "0 \<le> rc" "0 < hR + hc"
  shows "(1 / (f * (hR + hc)) * ts + rc * ((hR * tr + hc * tdb) / (hR + hc))) /
           (1 / (f * (hR + hc)) + rc) =
         tr + (ts - tr + f * rc * hc * (tdb - tr)) / (1 + f * rc * (hR + hc))"
proof -
  define hT where "hT = hR + hc"
  define P where "P = 1 + f * rc * hT"
  define Q where "Q = ts - tr + f * rc * hc * (tdb - tr)"
  have hT: "0 < hT" using assms by (simp add: hT_def)
  have fh: "f * hT \<noteq> 0" using assms hT by simp
  have "0 \<le> f * rc * hT" using assms hT by simp
  then have P: "0 < P" by (simp add: P_def)
  have e: "hR * tr + hc * tdb = hT * tr + hc * (tdb - tr)"
    by (simp add: hT_def algebra_simps)
  have num: "1 / (f * hT) * ts + rc * ((hT * tr + hc * (tdb - tr)) / hT) =
             (tr * P + Q) / (f * hT)"
    using assms(1) hT by (simp add: P_def Q_def field_simps)
  have den: "1 / (f * hT) + rc = P / (f * hT)"
    using assms(1) hT by (simp add: P_def field_simps)
  have "(1 / (f * hT) * ts + rc * ((hR * tr + hc * tdb) / hT)) / (1 / (f * hT) + rc) =
        ((tr * P + Q) / (f * hT)) / (P / (f * hT))"
    unfolding e num den ..
  also have "\<dots> = (tr * P + Q) / P" using fh by simp
  also have "\<dots> = tr + Q / P" using P by (simp add: field_simps)
  finally show ?thesis unfolding hT_def P_def Q_def .
qed

lemma tClNew_standing:
  assumes "c_bodyPosition c \<noteq> ''sitting''" "0 < c_fACl c" "0 \<le> c_rClo c"
    and "0 < 4.0 * 0.95 * sbc * ((t + c_tr c) / 2.0 + 273.15) ^ 3 * 0.73 + c_hCc c"
  shows "tClNew c st t =
         c_tr c + (s_tSkin st - c_tr c + c_fACl c * c_rClo c * c_hCc c * (c_tdb c - c_tr c)) /
           (1 + c_fACl c * c_rClo c *
              (4.0 * 0.95 * sbc * ((t + c_tr c) / 2.0 + 273.15) ^ 3 * 0.73 + c_hCc c))"
  unfolding tClNew_def tcl_update_def Let_def
  using assms(1) weighted_mean[OF assms(2,3,4), of "s_tSkin st" "c_tr c" "c_tdb c"]
  by simp

lemma hot_const_fields:
  "c_tdb hot_const = 10000" "c_tr hot_const = - 273.15" "c_rClo hot_const = 0.155"
  "c_fACl hot_const = 1.15" "c_hCc hot_const = 8.600001"
  "c_bodyPosition hot_const = ''standing''"
  by (simp_all add: hot_const_def initial_const_def Let_def defaults_kwargs_def
      object_assign_def assign_key_def)

lemma hot_tClNew:
  assumes ts: "s_tSkin st = 33.7" and y: "0 \<le> t + 273.15"
  shows "tClNew hot_const st t + 273.15 =
         16055.0771236889875 /
           (1 + 0.17825 * (4.0 * 0.95 * sbc * ((t + 273.15) / 2) ^ 3 * 0.73 + 8.600001))"
proof -
  have u: "(t + - 273.15) / 2.0 + 273.15 = (t + 273.15) / 2" by (simp add: field_simps)
  have "0 \<le> ((t + 273.15) / 2) ^ 3" using y by simp
  then have "0 \<le> 4.0 * 0.95 * sbc * ((t + 273.15) / 2) ^ 3 * 0.73"
    by (simp add: sbc_def)
  then have p: "0 < 4.0 * 0.95 * sbc * ((t + 273.15) / 2) ^ 3 * 0.73 + 8.600001"
    by (rule add_nonneg_pos) simp
  have gen: "- 273.15 + (33.7 - - 273.15 + 1.15 * 0.155 * 8.600001 * (10000 - - 273.15)) /
               (1 + 1.15 * 0.155 * (h + 8.600001)) + 273.15 =
             16055.0771236889875 / (1 + 0.17825 * (h + 8.600001))" for h :: real
    by simp
  have "tClNew hot_const st t =
         c_tr hot_const + (s_tSkin st - c_tr hot_const +
             c_fACl hot_const * c_rClo hot_const * c_hCc hot_const *
             (c_tdb hot_const - c_tr hot_const)) /
           (1 + c_fACl hot_const * c_rClo hot_const *
              (4.0 * 0.95 * sbc * ((t + c_tr hot_const) / 2.0 + 273.15) ^ 3 * 0.73 +
               c_hCc hot_const))"
  proof (rule tClNew_standing)
    show "c_bodyPosition hot_const \<noteq> ''sitting''" by (simp add: hot_const_fields)
    show "0 < c_fACl hot_const" by (simp add: hot_const_fields)
    show "0 \<le> c_rClo hot_const" by (simp add: hot_const_fields)
    show "0 < 4.0 * 0.95 * sbc * ((t + c_tr hot_const) / 2.0 + 273.15) ^ 3 * 0.73 +
              c_hCc hot_const"
      unfolding hot_const_fields u by (rule p)
  qed
  then have "tClNew hot_const st t + 273.15 =
      - 273.15 + (33.7 - - 273.15 + 1.15 * 0.155 * 8.600001 * (10000 - - 273.15)) /
        (1 + 1.15 * 0.155 *
           (4.0 * 0.95 * sbc * ((t + 273.15) / 2) ^ 3 * 0.73 + 8.600001)) + 273.15"
    unfolding hot_const_fields ts u by (rule arg_cong[where f = "\<lambda>x. x + 273.15"])
  then show ?thesis unfolding gen .
qed

lemma hot_far_to_near:
  assumes ts: "s_tSkin st = 33.7" and y: "4000 \<le> t + 273.15"
  shows "0 < tClNew hot_const st t + 273.15 \<and> tClNew hot_const st t + 273.15 \<le> 72"
proof -
  define hR where "hR = 4.0 * 0.95 * sbc * ((t + 273.15) / 2) ^ 3 * 0.73"
  define Dn where "Dn = 1 + 0.17825 * (hR + 8.600001)"
  have "(2000 :: real) ^ 3 \<le> ((t + 273.15) / 2) ^ 3" using y by (intro power_mono) simp_all
  then have hR: "1258 \<le> hR" by (simp add: hR_def sbc_def)
  have eq: "tClNew hot_const st t + 273.15 = 16055.0771236889875 / Dn"
    unfolding Dn_def hR_def using y by (intro hot_tClNew[OF ts]) simp
  have d: "226 \<le> Dn" using hR by (simp add: Dn_def)
  then have dp: "0 < Dn" by simp
  have "16055.0771236889875 \<le> 72 * Dn" using d by simp
  then show ?thesis unfolding eq using dp by (simp add: pos_divide_le_eq)
qed

lemma hot_near_to_far:
  assumes ts: "s_tSkin st = 33.7" and y: "0 < t + 273.15" "t + 273.15 \<le> 72"
  shows "4000 \<le> tClNew hot_const st t + 273.15"
proof -
  define hR where "hR = 4.0 * 0.95 * sbc * ((t + 273.15) / 2) ^ 3 * 0.73"
  define Dn where "Dn = 1 + 0.17825 * (hR + 8.600001)"
  have "((t + 273.15) / 2) ^ 3 \<le> (36 :: real) ^ 3" using y by (intro power_mono) simp_all
  then have hR: "hR \<le> 0.01" by (simp add: hR_def sbc_def)
  have "0 \<le> ((t + 273.15) / 2) ^ 3" using y by simp
  then have hR0: "0 \<le> hR" by (simp add: hR_def sbc_def)
  have eq: "tClNew hot_const st t + 273.15 = 16055.0771236889875 / Dn"
    unfolding Dn_def hR_def using y by (intro hot_tClNew[OF ts]) simp
  have dp: "0 < Dn" using hR0 by (simp add: Dn_def add_pos_nonneg)
  have "4000 * Dn \<le> 16055.0771236889875" using hR by (simp add: Dn_def)
  then show ?thesis unfolding eq using dp by (simp add: pos_le_divide_eq)
qed

lemma hot_initial:
  "s_tSkin (initial_state hot_const) = 33.7"
  "4000 \<le> tCl_initial hot_const (initial_state hot_const) + 273.15"
  by (simp_all add: tCl_initial_def initial_state_def Let_def hot_const_fields
      tempSkinNeutral_def)

lemma hot_alternates:
  fixes y :: "nat \<Rightarrow> real"
  defines "y \<equiv> \<lambda>k. snd (tcl_seq hot_const (initial_state hot_const)
                         (tCl_initial hot_const (initial_state hot_const)) k) + 273.15"
  shows "(4000 \<le> y k \<and> 0 < y (Suc k) \<and> y (Suc k) \<le> 72) \<or>
         (0 < y k \<and> y k \<le> 72 \<and> 4000 \<le> y (Suc k))"
proof -
  let ?s = "\<lambda>k. tcl_seq hot_const (initial_state hot_const)
                   (tCl_initial hot_const (initial_state hot_const)) k"
  have ts: "s_tSkin (fst (?s k)) = 33.7" for k
    by (simp only: tcl_seq_tSkin hot_initial(1))
  have next_y: "y (Suc k) = tClNew hot_const (fst (?s k)) (snd (?s k)) + 273.15" for k
    by (simp add: y_def)
  have fn: "0 < y (Suc k) \<and> y (Suc k) \<le> 72" if "4000 \<le> y k" for k
    unfolding next_y using hot_far_to_near[where st = "fst (?s k)" and t = "snd (?s k)", OF ts] that
    by (simp add: y_def)
  have nf: "4000 \<le> y (Suc k)" if "0 < y k" "y k \<le> 72" for k
    unfolding next_y using hot_near_to_far[where st = "fst (?s k)" and t = "snd (?s k)", OF ts] that
    by (simp add: y_def)
  show ?thesis
  proof (induction k)
    case 0
    have "4000 \<le> y 0" using hot_initial(2) by (simp add: y_def)
    then show ?case using fn[of 0] by blast
  next
    case (Suc k)
    then show ?case using fn[of "Suc k"] nf[of "Suc k"] by blast
  qed
qed

lemma hot_never_converged:
  "\<not> tcl_converged_at hot_const (initial_state hot_const)
       (tCl_initial hot_const (initial_state hot_const)) k"
  unfolding tcl_converged_at_def using hot_alternates[of k] by (auto simp del: tcl_seq.simps)

lemma hot_tcl_loop:
  "tcl_loop hot_const (initial_state hot_const)
     (tCl_initial hot_const (initial_state hot_const)) 0 = Inl (Error ''Max iterations exceeded'')"
  using tcl_loop_exceeds[of 0 hot_const "initial_state hot_const"
      "tCl_initial hot_const (initial_state hot_const)"] hot_never_converged
  by simp

lemma mild_const_fields:
  "c_tdb mild_const = 25" "c_tr mild_const = 25" "c_rClo mild_const = 0.0775"
  "c_fACl mild_const = 1.075" "c_hCc mild_const = 8.600001"
  "c_bodyPosition mild_const = ''standing''"
  by (simp_all add: mild_const_def initial_const_def Let_def defaults_kwargs_def
      object_assign_def assign_key_def)

lemma mild_tClNew:
  assumes ts: "s_tSkin st = 33.7" and y: "0 \<le> t"
  shows "tClNew mild_const st t =
         25 + 8.7 /
           (1 + 0.0833125 * (4.0 * 0.95 * sbc * ((t + 25) / 2.0 + 273.15) ^ 3 * 0.73 + 8.600001))"
proof -
  have "0 \<le> ((t + 25) / 2.0 + 273.15) ^ 3" using y by simp
  then have "0 \<le> 4.0 * 0.95 * sbc * ((t + 25) / 2.0 + 273.15) ^ 3 * 0.73"
    by (simp add: sbc_def)
  then have p: "0 < 4.0 * 0.95 * sbc * ((t + 25) / 2.0 + 273.15) ^ 3 * 0.73 + 8.600001"
    by (rule add_nonneg_pos) simp
  have gen: "25 + (33.7 - 25 + 1.075 * 0.0775 * 8.600001 * (25 - 25)) /
               (1 + 1.075 * 0.0775 * (h + 8.600001)) =
             25 + 8.7 / (1 + 0.0833125 * (h + 8.600001))" for h :: real
    by simp
  have "tClNew mild_const st t =
         c_tr mild_const + (s_tSkin st - c_tr mild_const +
             c_fACl mild_const * c_rClo mild_const * c_hCc mild_const *
             (c_tdb mild_const - c_tr mild_const)) /
           (1 + c_fACl mild_const * c_rClo mild_const *
              (4.0 * 0.95 * sbc * ((t + c_tr mild_const) / 2.0 + 273.15) ^ 3 * 0.73 +
               c_hCc mild_const))"
  proof (rule tClNew_standing)
    show "c_bodyPosition mild_const \<noteq> ''sitting''" by (simp add: mild_const_fields)
    show "0 < c_fACl mild_const" by (simp add: mild_const_fields)
    show "0 \<le> c_rClo mild_const" by (simp add: mild_const_fields)
    show "0 < 4.0 * 0.95 * sbc * ((t + c_tr mild_const) / 2.0 + 273.15) ^ 3 * 0.73 +
              c_hCc mild_const"
      unfolding mild_const_fields by (rule p)
  qed
  then show ?thesis unfolding mild_const_fields ts gen .
qed

lemma mild_step:
  assumes ts: "s_tSkin st = 33.7" and t: "29.12 \<le> t" "t \<le> 29.21"
  shows "29.2 \<le> tClNew mild_const st t \<and> tClNew mild_const st t \<le> 29.21"
proof -
  define u where "u = (t + 25) / 2.0 + 273.15"
  define w where "w = u ^ 3"
  define hR where "hR = 4.0 * 0.95 * sbc * w * 0.73"
  define Dn where "Dn = 1 + 0.0833125 * (hR + 8.600001)"
  have u: "300.21 \<le> u" "u \<le> 300.255" using t by (simp_all add: u_def)
  have "(27056739 :: real) \<le> 300.21 ^ 3" by (simp add: power_divide)
  also have "(300.21 :: real) ^ 3 \<le> u ^ 3" using u by (intro power_mono) simp_all
  finally have "27056739 \<le> w" by (simp add: w_def)
  then have lo: "4.25 \<le> hR" by (simp add: hR_def sbc_def)
  have "u ^ 3 \<le> (300.255 :: real) ^ 3" using u by (intro power_mono) simp_all
  also have "(300.255 :: real) ^ 3 \<le> 27068909" by (simp add: power_divide)
  finally have "w \<le> 27068909" by (simp add: w_def)
  then have hi: "hR \<le> 4.26" by (simp add: hR_def sbc_def)
  have eq: "tClNew mild_const st t = 25 + 8.7 / Dn"
    unfolding Dn_def hR_def w_def u_def using t by (intro mild_tClNew[OF ts]) simp
  have d: "2.07 \<le> Dn" "Dn \<le> 2.0714" using lo hi by (simp_all add: Dn_def)
  have dp: "0 < Dn" by (rule less_le_trans[OF _ d(1)]) simp
  have "4.2 * Dn \<le> 8.7" using d by simp
  then have a: "4.2 \<le> 8.7 / Dn" using dp by (simp add: pos_le_divide_eq)
  have "8.7 \<le> 4.21 * Dn" using d by simp
  then have b: "8.7 / Dn \<le> 4.21" using dp by (simp add: pos_divide_le_eq)
  show ?thesis unfolding eq using a b by simp
qed

lemma mild_initial:
  "s_tSkin (initial_state mild_const) = 33.7"
  "29.12 \<le> tCl_initial mild_const (initial_state mild_const)"
  "tCl_initial mild_const (initial_state mild_const) \<le> 29.13"
  by (simp_all add: tCl_initial_def initial_state_def Let_def mild_const_fields
      tempSkinNeutral_def)

lemma mild_converges:
  "\<not> tcl_converged_at mild_const (initial_state mild_const)
       (tCl_initial mild_const (initial_state mild_const)) 0"
  "tcl_converged_at mild_const (initial_state mild_const)
       (tCl_initial mild_const (initial_state mild_const)) 1"
proof -
  let ?s0 = "initial_state mild_const"
  let ?t0 = "tCl_initial mild_const ?s0"
  let ?t1 = "tClNew mild_const ?s0 ?t0"
  let ?t2 = "tClNew mild_const (tcl_update mild_const ?s0 ?t0) ?t1"
  have t1: "29.2 \<le> ?t1 \<and> ?t1 \<le> 29.21"
    using mild_initial by (intro mild_step) simp_all
  have "s_tSkin (tcl_update mild_const ?s0 ?t0) = 33.7"
    by (simp only: tcl_update_tSkin mild_initial(1))
  then have t2: "29.2 \<le> ?t2 \<and> ?t2 \<le> 29.21"
    using t1 by (intro mild_step) simp_all
  have far: "\<not> \<bar>b - a\<bar> \<le> 0.01" if "a \<le> 29.13" "29.2 \<le> b" for a b :: real
    using that by (simp add: abs_le_iff)
  have near: "\<bar>b - a\<bar> \<le> 0.01"
    if "29.2 \<le> a \<and> a \<le> 29.21" "29.2 \<le> b \<and> b \<le> 29.21" for a b :: real
  proof (rule abs_leI)
    show "b - a \<le> 0.01" using that by simp
    show "- (b - a) \<le> 0.01" using that by simp
  qed
  have "\<not> \<bar>?t1 - ?t0\<bar> \<le> 0.01" using mild_initial(3) t1 by (intro far) simp_all
  then show "\<not> tcl_converged_at mild_const ?s0 ?t0 0"
    by (simp add: tcl_converged_at_def)
  have "\<bar>?t2 - ?t1\<bar> \<le> 0.01" using t1 t2 by (rule near)
  then have "tcl_converged_at mild_const ?s0 ?t0 (Suc 0)"
    by (simp add: tcl_converged_at_def)
  then show "tcl_converged_at mild_const ?s0 ?t0 1" by simp
qed

lemma mild_tcl_loop:
  "tcl_loop mild_const (initial_state mild_const)
     (tCl_initial mild_const (initial_state mild_const)) 0 =
   Inr (fst (tcl_seq mild_const (initial_state mild_const)
               (tCl_initial mild_const (initial_state mild_const)) 2))"
  using tcl_loop_converges[of 0 1 mild_const "initial_state mild_const"
      "tCl_initial mild_const (initial_state mild_const)"] mild_converges
  by (simp add: iterationLimit_def numeral_2_eq_2 del: tcl_seq.simps(2))

lemma hot_eComfort: "\<not> c_eComfort hot_const < 0"
  by (simp add: hot_const_def initial_const_def Let_def calculate_metabolic_rate_def
      metFactor_def)

lemma two_nodes_step_failure:
  assumes c: "c = initial_const tdb tr v met clo (cal_vapor_pressure p_sat_torr tdb rh) wme
                    body_surface_area p_atmospheric body_position
                    (object_assign defaults_kwargs kwargs)"
    and ok: "\<not> c_eComfort c < 0" and n: "n < 60"
    and steps: "time_steps n c (initial_state c) = Inr st"
    and fail: "tcl_loop c st (tCl_initial c st) 0 = Inl e"
  shows "two_nodes p_sat_torr tdb tr v rh met clo wme body_surface_area p_atmospheric
           body_position max_skin_blood_flow kwargs = Some (Inl e)"
proof -
  have "time_step c st = Inl e" using fail by (simp add: time_step_tcl)
  with steps have "time_steps 60 c (initial_state c) = Inl e"
    using n by (rule time_steps_fail)
  then have "simulation_loop c 0 (initial_state c) = Inl e"
    using simulation_loop_steps[of 0 c "initial_state c"] by (simp add: lengthTimeSimulation_def)
  then have "calculate_two_nodes tdb tr v met clo (cal_vapor_pressure p_sat_torr tdb rh) wme
      body_surface_area p_atmospheric body_position (object_assign defaults_kwargs kwargs) =
      Some (Inl e)"
    using ok unfolding calculate_two_nodes_def c[symmetric] Let_def by simp
  then show ?thesis unfolding two_nodes_def Let_def by simp
qed

text \<open>
  C6. When none of the first 150 runs of the body of the inner loop brings the new
  clothing temperature within \<open>0.01\<close> of the old one, the loop throws
  \<^verbatim>\<open>Error("Max iterations exceeded")\<close>; otherwise it ends with the first run that does,
  in the state that run leaves. Nothing catches the exception: when the loop throws in
  one of the sixty time steps, \<^verbatim>\<open>two_nodes\<close> throws the same exception.
\<close>

theorem tcl_iteration_limit:
  "((\<forall>k<150. \<not> tcl_converged_at c st tCl k) \<longrightarrow>
      tcl_loop c st tCl 0 = Inl (Error ''Max iterations exceeded'')) \<and>
   (k < 150 \<and> tcl_converged_at c st tCl k \<and> (\<forall>j<k. \<not> tcl_converged_at c st tCl j) \<longrightarrow>
      tcl_loop c st tCl 0 = Inr (fst (tcl_seq c st tCl (Suc k)))) \<and>
   (c = initial_const tdb tr v met clo (cal_vapor_pressure p_sat_torr tdb rh) wme
          body_surface_area p_atmospheric body_position (object_assign defaults_kwargs kwargs) \<and>
    \<not> c_eComfort c < 0 \<and> n < 60 \<and> time_steps n c (initial_state c) = Inr st' \<and>
    tcl_loop c st' (tCl_initial c st') 0 = Inl e \<longrightarrow>
      two_nodes p_sat_torr tdb tr v rh met clo wme body_surface_area p_atmospheric
        body_position max_skin_blood_flow kwargs = Some (Inl e))"
proof (intro conjI impI)
  assume "\<forall>k<150. \<not> tcl_converged_at c st tCl k"
  then show "tcl_loop c st tCl 0 = Inl (Error ''Max iterations exceeded'')"
    using tcl_loop_exceeds[of 0 c st tCl] by (simp add: iterationLimit_def)
next
  assume "k < 150 \<and> tcl_converged_at c st tCl k \<and> (\<forall>j<k. \<not> tcl_converged_at c st tCl j)"
  then show "tcl_loop c st tCl 0 = Inr (fst (tcl_seq c st tCl (Suc k)))"
    using tcl_loop_converges[of 0 k c st tCl]
    by (simp add: iterationLimit_def del: tcl_seq.simps(2))
next
  assume "c = initial_const tdb tr v met clo (cal_vapor_pressure p_sat_torr tdb rh) wme
          body_surface_area p_atmospheric body_position (object_assign defaults_kwargs kwargs) \<and>
    \<not> c_eComfort c < 0 \<and> n < 60 \<and> time_steps n c (initial_state c) = Inr st' \<and>
    tcl_loop c st' (tCl_initial c st') 0 = Inl e"
  then have c: "c = initial_const tdb tr v met clo (cal_vapor_pressure p_sat_torr tdb rh) wme
          body_surface_area p_atmospheric body_position (object_assign defaults_kwargs kwargs)"
    and ok: "\<not> c_eComfort c < 0" and n: "n < 60"
    and steps: "time_steps n c (initial_state c) = Inr st'"
    and fail: "tcl_loop c st' (tCl_initial c st') 0 = Inl e"
    by blast+
  show "two_nodes p_sat_torr tdb tr v rh met clo wme body_surface_area p_atmospheric
        body_position max_skin_blood_flow kwargs = Some (Inl e)"
    using c ok n steps fail by (rule two_nodes_step_failure)
qed

theorem tcl_iteration_limit_witness:
  "tcl_loop hot_const (initial_state hot_const)
     (tCl_initial hot_const (initial_state hot_const)) 0 =
     Inl (Error ''Max iterations exceeded'') \<and>
   two_nodes (\<lambda>t. exp (18.6686 - 4030.183 / (t + 235))) 10000 (- 273.15) 1 50 1.85 1 0 1.8258
     101325 ''standing'' 90 defaults_kwargs = Some (Inl (Error ''Max iterations exceeded'')) \<and>
   tcl_loop mild_const (initial_state mild_const)
     (tCl_initial mild_const (initial_state mild_const)) 0 =
     Inr (fst (tcl_seq mild_const (initial_state mild_const)
                 (tCl_initial mild_const (initial_state mild_const)) 2))"
proof -
  note hot = tcl_iteration_limit
    [where c = hot_const and st = "initial_state hot_const"
       and tCl = "tCl_initial hot_const (initial_state hot_const)"
       and tdb = 10000 and tr = "- 273.15" and v = 1 and met = "1.85" and clo = 1
       and p_sat_torr = "\<lambda>t. exp (18.6686 - 4030.183 / (t + 235))" and rh = 50 and wme = 0
       and body_surface_area = "1.8258" and p_atmospheric = 101325
       and body_position = "''standing''" and kwargs = defaults_kwargs and n = 0
       and st' = "initial_state hot_const" and e = "Error ''Max iterations exceeded''"
       and max_skin_blood_flow = 90]
  note mild = tcl_iteration_limit
    [where c = mild_const and st = "initial_state mild_const"
       and tCl = "tCl_initial mild_const (initial_state mild_const)" and k = 1]
  have a: "tcl_loop hot_const (initial_state hot_const)
     (tCl_initial hot_const (initial_state hot_const)) 0 =
     Inl (Error ''Max iterations exceeded'')"
    using hot hot_never_converged by blast
  have b: "two_nodes (\<lambda>t. exp (18.6686 - 4030.183 / (t + 235))) 10000 (- 273.15) 1 50 1.85 1 0
     1.8258 101325 ''standing'' 90 defaults_kwargs = Some (Inl (Error ''Max iterations exceeded''))"
    using hot a hot_eComfort by (simp add: hot_const_def)
  have c: "tcl_loop mild_const (initial_state mild_const)
     (tCl_initial mild_const (initial_state mild_const)) 0 =
     Inr (fst (tcl_seq mild_const (initial_state mild_const)
                 (tCl_initial mild_const (initial_state mild_const)) 2))"
    using mild mild_converges by (simp add: numeral_2_eq_2 del: tcl_seq.simps(2))
  from a b c show ?thesis by simp
qed

subsection \<open>The mass-weighting fraction\<close>

lemma time_steps_snoc:
  "time_steps (Suc n) c st =
     (case time_steps n c st of Inl e \<Rightarrow> Inl e | Inr st' \<Rightarrow> time_step c st')"
  using time_steps_add[of n "Suc 0" c st] by (simp split: sum.splits)

lemma heat_balance_alfa:
  "s_alfa (heat_balance c st) = 0.0417737 + 0.7451833 / (s_mBl (heat_balance c st) + 0.585417)"
  by (simp add: heat_balance_def Let_def)

lemma alfa_bounds:
  assumes "0.5 \<le> (mBl :: real)"
  shows "0 < 0.0417737 + 0.7451833 / (mBl + 0.585417)"
    and "0.0417737 + 0.7451833 / (mBl + 0.585417) < 1"
proof -
  have p: "0 < mBl + 0.585417" using assms by simp
  then show "0 < 0.0417737 + 0.7451833 / (mBl + 0.585417)" by (simp add: add_pos_pos)
  have "0.7451833 / (mBl + 0.585417) < 0.9" using p assms by (simp add: field_simps)
  then show "0.0417737 + 0.7451833 / (mBl + 0.585417) < 1" by simp
qed

lemma time_step_invariant:
  assumes "time_step c st = Inr st'"
  shows "0.5 \<le> s_mBl st' \<and> 0 < s_alfa st' \<and> s_alfa st' < 1 \<and>
         s_alfa st' = 0.0417737 + 0.7451833 / (s_mBl st' + 0.585417)"
proof -
  from assms obtain s where s: "st' = heat_balance c s"
    by (auto simp: time_step_def Let_def split: sum.splits)
  show ?thesis unfolding s heat_balance_alfa
    using alfa_bounds[OF heat_balance_mBl[of c s]] heat_balance_mBl[of c s] by simp
qed

text \<open>
  C8. \<^verbatim>\<open>alfa\<close> is \<open>0.1\<close> when the loop is entered. After any number of time steps that did
  not throw, the blood flow is at least \<open>0.5\<close> and \<^verbatim>\<open>alfa\<close> lies strictly between \<open>0\<close> and
  \<open>1\<close>; after at least one step it is \<open>0.0417737 + 0.7451833 / (mBl + 0.585417)\<close> for the
  blood flow of that step.
\<close>

theorem alfa_between_zero_and_one:
  "s_alfa (initial_state c) = 0.1 \<and>
   (time_steps n c (initial_state c) = Inr st \<longrightarrow>
      0.5 \<le> s_mBl st \<and> 0 < s_alfa st \<and> s_alfa st < 1 \<and>
      (0 < n \<longrightarrow> s_alfa st = 0.0417737 + 0.7451833 / (s_mBl st + 0.585417)))"
proof (rule conjI)
  show "s_alfa (initial_state c) = 0.1" by (simp add: initial_state_def Let_def)
next
  show "time_steps n c (initial_state c) = Inr st \<longrightarrow>
      0.5 \<le> s_mBl st \<and> 0 < s_alfa st \<and> s_alfa st < 1 \<and>
      (0 < n \<longrightarrow> s_alfa st = 0.0417737 + 0.7451833 / (s_mBl st + 0.585417))"
  proof (rule impI)
    assume steps: "time_steps n c (initial_state c) = Inr st"
    show "0.5 \<le> s_mBl st \<and> 0 < s_alfa st \<and> s_alfa st < 1 \<and>
        (0 < n \<longrightarrow> s_alfa st = 0.0417737 + 0.7451833 / (s_mBl st + 0.585417))"
    proof (cases n)
      case 0
      with steps have "st = initial_state c" by simp
      then show ?thesis using 0
        by (simp add: initial_state_def Let_def skinBloodFlowNeutral_def)
    next
      case (Suc k)
      from steps obtain s where "time_step c s = Inr st"
        unfolding Suc time_steps_snoc by (auto split: sum.splits)
      from time_step_invariant[OF this] show ?thesis by simp
    qed
  qed
qed

lemma mild_first_step:
  "time_steps 1 mild_const (initial_state mild_const) =
   Inr (heat_balance mild_const
          (fst (tcl_seq mild_const (initial_state mild_const)
                  (tCl_initial mild_const (initial_state mild_const)) 2)))"
  by (simp add: time_step_tcl mild_tcl_loop del: tcl_seq.simps(2))

theorem alfa_between_zero_and_one_witness:
  "s_alfa (initial_state mild_const) = 0.1 \<and>
   time_steps 1 mild_const (initial_state mild_const) =
     Inr (heat_balance mild_const
            (fst (tcl_seq mild_const (initial_state mild_const)
                    (tCl_initial mild_const (initial_state mild_const)) 2))) \<and>
   0.5 \<le> s_mBl (heat_balance mild_const
            (fst (tcl_seq mild_const (initial_state mild_const)
                    (tCl_initial mild_const (initial_state mild_const)) 2))) \<and>
   0 < s_alfa (heat_balance mild_const
            (fst (tcl_seq mild_const (initial_state mild_const)
                    (tCl_initial mild_const (initial_state mild_const)) 2))) \<and>
   s_alfa (heat_balance mild_const
            (fst (tcl_seq mild_const (initial_state mild_const)
                    (tCl_initial mild_const (initial_state mild_const)) 2))) < 1"
  using alfa_between_zero_and_one[where c = mild_const and n = 1
      and st = "heat_balance mild_const
            (fst (tcl_seq mild_const (initial_state mild_const)
                    (tCl_initial mild_const (initial_state mild_const)) 2))"]
    mild_first_step
  by blast

end
